theory Spec2Isabelle
  imports
    Main
    "HOL-Library.Char_ord"
    "HOL-Library.List_Lexorder"
    "HOL-Library.Product_Lexorder"
    "HOL-Library.Multiset"
begin

text \<open>
  A model of \<^verbatim>\<open>src/commands.ts\<close> of metaschema-js: the document sniffer
  (\<^verbatim>\<open>detectMetaschemaDocumentType\<close>), the installer (\<^verbatim>\<open>getVersionsFromMaven\<close>,
  \<^verbatim>\<open>installMetaschemaCli\<close>), the command runner (\<^verbatim>\<open>findMetaschemaCliPath\<close>,
  \<^verbatim>\<open>executeMetaschemaCliCommand\<close>) and the result-log reader (\<^verbatim>\<open>validateWithSarif\<close>),
  followed by the properties proved of them.
\<close>

section \<open>Strings\<close>

text \<open>
  A JavaScript string is modelled as a \<^typ>\<open>string\<close> that holds the text in UTF-8:
  an ASCII character is one \<^typ>\<open>char\<close>, any other character is the bytes of its
  encoding. The helpers below are the library calls that \<^verbatim>\<open>src/commands.ts\<close> makes
  on strings.
\<close>

definition byte :: "char \<Rightarrow> nat" where
  "byte c = of_char c"

definition newline :: char where
  "newline = CHR 0x0A"

definition backslash :: char where
  "backslash = CHR 0x5C"

definition digit :: "nat \<Rightarrow> char" where
  "digit n = ''0123456789'' ! (n mod 10)"

fun show_nat :: "nat \<Rightarrow> string" where
  "show_nat n = (if n < 10 then [digit n] else show_nat (n div 10) @ [digit n])"

declare show_nat.simps [simp del]

definition show_int :: "int \<Rightarrow> string" where
  "show_int i = (if i < 0 then CHR ''-'' # show_nat (nat (- i)) else show_nat (nat i))"

text \<open>
  \<^verbatim>\<open>String.prototype.toLowerCase\<close>, on the letters A to Z and on the capital letters
  U+00C0 to U+00DE (two bytes each, the first of them C3). Other characters stay;
  JavaScript lower-cases the capital letters of other scripts too.
\<close>

definition lower_char :: "char \<Rightarrow> char" where
  "lower_char c =
     (case map_of (zip ''ABCDEFGHIJKLMNOPQRSTUVWXYZ'' ''abcdefghijklmnopqrstuvwxyz'') c of
        Some d \<Rightarrow> d
      | None \<Rightarrow> c)"

definition upper_latin :: "char \<Rightarrow> bool" where
  "upper_latin d = (0x80 \<le> byte d \<and> byte d \<le> 0x9E \<and> byte d \<noteq> 0x97)"

fun toLowerCase :: "string \<Rightarrow> string" where
  "toLowerCase [] = []"
| "toLowerCase [c] = [lower_char c]"
| "toLowerCase (c # d # cs) =
     (if c = CHR 0xC3 \<and> upper_latin d then c # char_of (byte d + 0x20) # toLowerCase cs
      else lower_char c # toLowerCase (d # cs))"

text \<open>
  \<^verbatim>\<open>String.prototype.trim\<close>: white space and line terminators go, at both ends. These
  are the characters U+0009 to U+000D, U+0020, U+00A0, U+1680, U+2000 to U+200A, U+2028,
  U+2029, U+202F, U+205F, U+3000 and U+FEFF, here in UTF-8.
\<close>

definition white_space :: "string list" where
  "white_space =
     [[CHR 0x09], [CHR 0x0A], [CHR 0x0B], [CHR 0x0C], [CHR 0x0D], [CHR 0x20],
      [CHR 0xC2, CHR 0xA0],
      [CHR 0xE1, CHR 0x9A, CHR 0x80],
      [CHR 0xE2, CHR 0x80, CHR 0x80], [CHR 0xE2, CHR 0x80, CHR 0x81],
      [CHR 0xE2, CHR 0x80, CHR 0x82], [CHR 0xE2, CHR 0x80, CHR 0x83],
      [CHR 0xE2, CHR 0x80, CHR 0x84], [CHR 0xE2, CHR 0x80, CHR 0x85],
      [CHR 0xE2, CHR 0x80, CHR 0x86], [CHR 0xE2, CHR 0x80, CHR 0x87],
      [CHR 0xE2, CHR 0x80, CHR 0x88], [CHR 0xE2, CHR 0x80, CHR 0x89],
      [CHR 0xE2, CHR 0x80, CHR 0x8A],
      [CHR 0xE2, CHR 0x80, CHR 0xA8], [CHR 0xE2, CHR 0x80, CHR 0xA9],
      [CHR 0xE2, CHR 0x80, CHR 0xAF],
      [CHR 0xE2, CHR 0x81, CHR 0x9F],
      [CHR 0xE3, CHR 0x80, CHR 0x80],
      [CHR 0xEF, CHR 0xBB, CHR 0xBF]]"

text \<open>\<open>strip seqs s\<close> drops from the head of \<open>s\<close> every leading occurrence of one of \<open>seqs\<close>.\<close>

fun strip :: "string list \<Rightarrow> string \<Rightarrow> string" where
  "strip seqs [] = []"
| "strip seqs (c # cs) =
     (case find (\<lambda>ws. ws \<noteq> [] \<and> take (length ws) (c # cs) = ws) seqs of
        None \<Rightarrow> c # cs
      | Some ws \<Rightarrow> strip seqs (drop (length ws - 1) cs))"

definition trim :: "string \<Rightarrow> string" where
  "trim s = rev (strip (map rev white_space) (rev (strip white_space s)))"

text \<open>
  \<^verbatim>\<open>String.prototype.split\<close> with a one-character separator: the pieces between the
  separators, so the empty string gives one empty piece.
\<close>

fun split_on :: "char \<Rightarrow> string \<Rightarrow> string list" where
  "split_on c [] = [[]]"
| "split_on c (x # xs) =
     (if x = c then [] # split_on c xs
      else (case split_on c xs of
              [] \<Rightarrow> [[x]]
            | p # ps \<Rightarrow> (x # p) # ps))"

text \<open>\<^verbatim>\<open>Array.prototype.join\<close> on strings.\<close>

fun join :: "string \<Rightarrow> string list \<Rightarrow> string" where
  "join sep [] = []"
| "join sep [x] = x"
| "join sep (x # y # ys) = x @ sep @ join sep (y # ys)"

text \<open>
  \<^verbatim>\<open>Buffer.prototype.toString\<close> with no argument: the bytes are decoded as UTF-8. A
  well-formed sequence is kept. A byte that cannot start a sequence, and a sequence that
  is cut short (by a byte that cannot continue it, or by the end of the buffer), become
  the replacement character U+FFFD, and decoding goes on at the byte that did not fit.
\<close>

definition replacement :: string where
  "replacement = [CHR 0xEF, CHR 0xBF, CHR 0xBD]"

definition between :: "nat \<Rightarrow> nat \<Rightarrow> char \<Rightarrow> bool" where
  "between lo hi c = (lo \<le> byte c \<and> byte c \<le> hi)"

text \<open>The range of the second byte, which depends on the first for E0, ED, F0 and F4.\<close>

definition second_lo :: "char \<Rightarrow> nat" where
  "second_lo b = (if b = CHR 0xE0 then 0xA0 else if b = CHR 0xF0 then 0x90 else 0x80)"

definition second_hi :: "char \<Rightarrow> nat" where
  "second_hi b = (if b = CHR 0xED then 0x9F else if b = CHR 0xF4 then 0x8F else 0xBF)"

fun Buffer_toString :: "string \<Rightarrow> string" where
  "Buffer_toString [] = []"
| "Buffer_toString (b # bs) =
     (if byte b < 0x80 then b # Buffer_toString bs
      else if between 0xC2 0xDF b then
        (case bs of
           [] \<Rightarrow> replacement
         | c1 # bs1 \<Rightarrow>
             if between 0x80 0xBF c1 then b # c1 # Buffer_toString bs1
             else replacement @ Buffer_toString bs)
      else if between 0xE0 0xEF b then
        (case bs of
           [] \<Rightarrow> replacement
         | c1 # bs1 \<Rightarrow>
             if \<not> between (second_lo b) (second_hi b) c1 then replacement @ Buffer_toString bs
             else (case bs1 of
                     [] \<Rightarrow> replacement
                   | c2 # bs2 \<Rightarrow>
                       if between 0x80 0xBF c2 then b # c1 # c2 # Buffer_toString bs2
                       else replacement @ Buffer_toString bs1))
      else if between 0xF0 0xF4 b then
        (case bs of
           [] \<Rightarrow> replacement
         | c1 # bs1 \<Rightarrow>
             if \<not> between (second_lo b) (second_hi b) c1 then replacement @ Buffer_toString bs
             else (case bs1 of
                     [] \<Rightarrow> replacement
                   | c2 # bs2 \<Rightarrow>
                       if \<not> between 0x80 0xBF c2 then replacement @ Buffer_toString bs1
                       else (case bs2 of
                               [] \<Rightarrow> replacement
                             | c3 # bs3 \<Rightarrow>
                                 if between 0x80 0xBF c3
                                 then b # c1 # c2 # c3 # Buffer_toString bs3
                                 else replacement @ Buffer_toString bs2)))
      else replacement @ Buffer_toString bs)"

text \<open>
  Well-formed UTF-8: one byte below 80; a byte from C2 to DF and one continuation byte;
  a byte from E0 to EF and two; a byte from F0 to F4 and three. A continuation byte is
  from 80 to BF, and the second byte is in the range that the first allows.
\<close>

fun utf8 :: "string \<Rightarrow> bool" where
  "utf8 [] = True"
| "utf8 (b # bs) =
     (if byte b < 0x80 then utf8 bs
      else if between 0xC2 0xDF b then
        (case bs of
           c1 # bs1 \<Rightarrow> between 0x80 0xBF c1 \<and> utf8 bs1
         | _ \<Rightarrow> False)
      else if between 0xE0 0xEF b then
        (case bs of
           c1 # c2 # bs2 \<Rightarrow>
             between (second_lo b) (second_hi b) c1 \<and> between 0x80 0xBF c2 \<and> utf8 bs2
         | _ \<Rightarrow> False)
      else if between 0xF0 0xF4 b then
        (case bs of
           c1 # c2 # c3 # bs3 \<Rightarrow>
             between (second_lo b) (second_hi b) c1 \<and> between 0x80 0xBF c2
             \<and> between 0x80 0xBF c3 \<and> utf8 bs3
         | _ \<Rightarrow> False)
      else False)"

section \<open>Paths\<close>

datatype platform = Win32 | Posix

definition is_sep :: "platform \<Rightarrow> char \<Rightarrow> bool" where
  "is_sep P c = (c = CHR ''/'' \<or> (P = Win32 \<and> c = backslash))"

definition is_letter :: "char \<Rightarrow> bool" where
  "is_letter c =
     (c \<in> set ''ABCDEFGHIJKLMNOPQRSTUVWXYZabcdefghijklmnopqrstuvwxyz'')"

definition has_drive :: "string \<Rightarrow> bool" where
  "has_drive p = (case p of c # d # _ \<Rightarrow> d = CHR '':'' \<and> is_letter c | _ \<Rightarrow> False)"

text \<open>
  \<^verbatim>\<open>path.extname\<close> of Node.js: the text from the last dot of the last path component
  to its end. Trailing separators are skipped; on Windows a drive prefix is skipped and
  the backslash separates too. The result is empty when the component has no dot, when
  its only dot is its first character, and when the component is \<^verbatim>\<open>..\<close>.
\<close>

definition extname :: "platform \<Rightarrow> string \<Rightarrow> string" where
  "extname P path =
     (let body = (if P = Win32 \<and> has_drive path then drop 2 path else path);
          trimmed = rev (dropWhile (is_sep P) (rev body));
          base = rev (takeWhile (\<lambda>c. \<not> is_sep P c) (rev trimmed));
          upto_dot = dropWhile (\<lambda>c. c \<noteq> CHR ''.'') (rev base)
      in if upto_dot = [] then []
         else if length upto_dot = 1 then []
         else if base = ''..'' then []
         else drop (length upto_dot - 1) base)"

section \<open>JavaScript values and exceptions\<close>

text \<open>
  What \<^verbatim>\<open>JSON.parse\<close>, \<^verbatim>\<open>yaml.load\<close> and the xml2js parser return. An object is
  the list of its own enumerable properties in enumeration order, with distinct keys.
\<close>

datatype jsval =
    JUndefined
  | JNull
  | JBool bool
  | JNum int
  | JStr string
  | JArr "jsval list"
  | JObj "(string \<times> jsval) list"

text \<open>
  What a \<^verbatim>\<open>throw\<close> carries: an error object with its name and message, or, in
  \<^verbatim>\<open>validateWithSarif\<close>, a bare string.
\<close>

datatype thrown = ErrorObj string string | StrVal string

definition Error :: "string \<Rightarrow> thrown" where
  "Error msg = ErrorObj ''Error'' msg"

definition TypeError :: "string \<Rightarrow> thrown" where
  "TypeError msg = ErrorObj ''TypeError'' msg"

text \<open>The text a template literal \<^verbatim>\<open>${error}\<close> puts for a thrown value.\<close>

fun thrown_toString :: "thrown \<Rightarrow> string" where
  "thrown_toString (StrVal s) = s"
| "thrown_toString (ErrorObj name msg) =
     (if msg = [] then name else if name = [] then msg else name @ '': '' @ msg)"

text \<open>\<^verbatim>\<open>error.message\<close> inside a template literal.\<close>

fun thrown_message :: "thrown \<Rightarrow> string" where
  "thrown_message (ErrorObj name msg) = msg"
| "thrown_message (StrVal s) = ''undefined''"

text \<open>\<^verbatim>\<open>typeof v === 'object'\<close>.\<close>

fun typeof_object :: "jsval \<Rightarrow> bool" where
  "typeof_object JNull = True"
| "typeof_object (JArr xs) = True"
| "typeof_object (JObj kvs) = True"
| "typeof_object v = False"

text \<open>\<^verbatim>\<open>Object.keys\<close>: it throws on \<^verbatim>\<open>null\<close> and \<^verbatim>\<open>undefined\<close>; a number or a
  boolean has no keys; a string and an array have their indices (for a string, one for
  each \<^typ>\<open>char\<close>, which is one for each character of ASCII text).\<close>

fun Object_keys :: "jsval \<Rightarrow> thrown + string list" where
  "Object_keys JUndefined = Inl (TypeError ''Cannot convert undefined or null to object'')"
| "Object_keys JNull = Inl (TypeError ''Cannot convert undefined or null to object'')"
| "Object_keys (JBool b) = Inr []"
| "Object_keys (JNum n) = Inr []"
| "Object_keys (JStr s) = Inr (map show_nat [0..<length s])"
| "Object_keys (JArr xs) = Inr (map show_nat [0..<length xs])"
| "Object_keys (JObj kvs) = Inr (map fst kvs)"

text \<open>\<^verbatim>\<open>xs[0]\<close> on an array of strings: \<^verbatim>\<open>undefined\<close> (here \<open>None\<close>) when it is empty.\<close>

fun first_key :: "string list \<Rightarrow> string option" where
  "first_key [] = None"
| "first_key (k # ks) = Some k"

text \<open>Reading a property \<^verbatim>\<open>v.name\<close>, and an element \<^verbatim>\<open>v[i]\<close>.\<close>

fun get_prop :: "jsval \<Rightarrow> string \<Rightarrow> thrown + jsval" where
  "get_prop JUndefined k =
     Inl (TypeError (''Cannot read properties of undefined (reading '' @ [CHR 0x27] @ k
                       @ [CHR 0x27] @ '')''))"
| "get_prop JNull k =
     Inl (TypeError (''Cannot read properties of null (reading '' @ [CHR 0x27] @ k
                       @ [CHR 0x27] @ '')''))"
| "get_prop (JObj kvs) k = Inr (case map_of kvs k of None \<Rightarrow> JUndefined | Some v \<Rightarrow> v)"
| "get_prop (JArr xs) k =
     Inr (if k = ''length'' then JNum (int (length xs))
          else (case find (\<lambda>i. show_nat i = k) [0..<length xs] of
                  None \<Rightarrow> JUndefined
                | Some i \<Rightarrow> xs ! i))"
| "get_prop (JStr s) k =
     Inr (if k = ''length'' then JNum (int (length s))
          else (case find (\<lambda>i. show_nat i = k) [0..<length s] of
                  None \<Rightarrow> JUndefined
                | Some i \<Rightarrow> JStr [s ! i]))"
| "get_prop v k = Inr JUndefined"

fun get_index :: "jsval \<Rightarrow> nat \<Rightarrow> thrown + jsval" where
  "get_index (JArr xs) i = Inr (if i < length xs then xs ! i else JUndefined)"
| "get_index (JStr s) i = Inr (if i < length s then JStr [s ! i] else JUndefined)"
| "get_index v i = get_prop v (show_nat i)"

text \<open>\<^verbatim>\<open>String(v)\<close>, as template literals, \<^verbatim>\<open>join\<close> and the default sort apply it.\<close>

fun js_toString :: "jsval \<Rightarrow> string" where
  "js_toString JUndefined = ''undefined''"
| "js_toString JNull = ''null''"
| "js_toString (JBool b) = (if b then ''true'' else ''false'')"
| "js_toString (JNum n) = show_int n"
| "js_toString (JStr s) = s"
| "js_toString (JArr xs) =
     join '','' (map (\<lambda>x. if x = JUndefined \<or> x = JNull then [] else js_toString x) xs)"
| "js_toString (JObj kvs) = ''[object Object]''"

text \<open>\<^verbatim>\<open>xs.join(sep)\<close> on an array of values.\<close>

definition js_join :: "string \<Rightarrow> jsval list \<Rightarrow> string" where
  "js_join sep xs =
     join sep (map (\<lambda>x. if x = JUndefined \<or> x = JNull then [] else js_toString x) xs)"

text \<open>
  \<^verbatim>\<open>Array.prototype.sort\<close> with no comparator: the elements are compared as strings,
  code unit by code unit (here byte by byte, which is the same order on ASCII text),
  \<^verbatim>\<open>undefined\<close> goes last, and equal elements keep their order.
\<close>

definition js_sort_key :: "jsval \<Rightarrow> bool \<times> string" where
  "js_sort_key v = (v = JUndefined, js_toString v)"

definition js_sort :: "jsval list \<Rightarrow> jsval list" where
  "js_sort xs = sort_key js_sort_key xs"

section \<open>The host and the world\<close>

text \<open>
  What the program does to its surroundings is a trace of effects, in order. The file
  system is the part of it the program reads back: a path has no entry, or it has one.
  An entry says what reading it gives, its text or the error thrown (the entry is a
  directory, permission is denied, the text is too long), and what removing it throws,
  if anything (the entry is a directory or busy, permission is denied). \<open>File c\<close> is a
  file with text \<open>c\<close> that can be read and removed.
\<close>

datatype node = Entry "thrown + string" "thrown option"

abbreviation File :: "string \<Rightarrow> node" where
  "File c \<equiv> Entry (Inr c) None"

datatype colour = Blue | Red | Green | Yellow

datatype cons_arg = S string | E thrown

datatype effect =
    ConsoleLog "cons_arg list"
  | ConsoleError "cons_arg list"
  | StdoutWrite string
  | Exec string
  | ExecSync string
  | Spawn string "string list" bool
  | Fetch string
  | ReadFile string
  | RmFile string
  | Mkdir string
  | Extract string string
  | Chmod string string
  | Unlink string
  | WriteFile string string
  | Symlink string string

type_synonym fs = "string \<rightharpoonup> node"

record world =
  files :: fs
  trace :: "effect list"

datatype stream = Stdout | Stderr

text \<open>What a child process emits: a chunk of bytes on a stream, a spawn error, and its
  close with the exit code (\<open>None\<close> is \<^verbatim>\<open>null\<close>, a process ended by a signal).\<close>

datatype proc_event = Data stream string | ErrorEv string | Close "int option"

record response =
  ok :: bool
  status :: int
  body :: string

text \<open>
  The host is everything outside \<^verbatim>\<open>src/commands.ts\<close> that it calls: the platform,
  the shell, child processes, the network, the parsers, chalk, uuid and \<^verbatim>\<open>path.join\<close>.
  \<open>fs_step\<close> is the outcome of the file-system calls of the install (making
  directories, extracting, changing modes, linking, and whether writing fails).
\<close>

record host =
  platform :: platform
  exec :: "string \<Rightarrow> thrown + string \<times> string"
  execSync :: "string \<Rightarrow> thrown + string"
  spawn :: "string \<Rightarrow> string list \<Rightarrow> bool \<Rightarrow> fs \<Rightarrow> thrown + proc_event list \<times> fs"
  fetch :: "string \<Rightarrow> thrown + response"
  JSON_parse :: "string \<Rightarrow> thrown + jsval"
  yaml_load :: "string \<Rightarrow> thrown + jsval"
  xml2js_parse :: "string \<Rightarrow> thrown + jsval"
  chalk :: "colour \<Rightarrow> string \<Rightarrow> string"
  v4 :: string
  path_join :: "string list \<Rightarrow> string"
  fs_step :: "effect \<Rightarrow> fs \<Rightarrow> thrown + fs"

text \<open>
  A call returns, throws (an async function rejects), or never settles. Every function
  takes the world and returns the world it leaves.
\<close>

datatype 'a outcome = Returned 'a | Thrown thrown | Pending

type_synonym 'a action = "world \<Rightarrow> 'a outcome \<times> world"

definition emit :: "effect \<Rightarrow> world \<Rightarrow> world" where
  "emit e w = w\<lparr>trace := trace w @ [e]\<rparr>"

definition ret :: "'a \<Rightarrow> 'a action" where
  "ret x w = (Returned x, w)"

definition throw :: "thrown \<Rightarrow> 'a action" where
  "throw t w = (Thrown t, w)"

definition lift :: "thrown + 'a \<Rightarrow> 'a action" where
  "lift r w = (case r of Inl t \<Rightarrow> (Thrown t, w) | Inr x \<Rightarrow> (Returned x, w))"

definition seq :: "'a action \<Rightarrow> ('a \<Rightarrow> 'b action) \<Rightarrow> 'b action" where
  "seq m f w =
     (case m w of
        (Returned x, w') \<Rightarrow> f x w'
      | (Thrown t, w') \<Rightarrow> (Thrown t, w')
      | (Pending, w') \<Rightarrow> (Pending, w'))"

definition catch :: "'a action \<Rightarrow> (thrown \<Rightarrow> 'a action) \<Rightarrow> 'a action" where
  "catch m h w =
     (case m w of
        (Thrown t, w') \<Rightarrow> h t w'
      | r \<Rightarrow> r)"

definition say :: "effect \<Rightarrow> unit action" where
  "say e w = (Returned (), emit e w)"

definition bind_sum :: "thrown + 'a \<Rightarrow> ('a \<Rightarrow> thrown + 'b) \<Rightarrow> thrown + 'b" where
  "bind_sum r f = (case r of Inl t \<Rightarrow> Inl t | Inr x \<Rightarrow> f x)"

text \<open>The \<^verbatim>\<open>fs\<close> calls on single files.\<close>

definition existsSync :: "string \<Rightarrow> world \<Rightarrow> bool" where
  "existsSync p w = (files w p \<noteq> None)"

definition ENOENT :: "string \<Rightarrow> string \<Rightarrow> thrown" where
  "ENOENT syscall p =
     Error (''ENOENT: no such file or directory, '' @ syscall @ '' '' @ [CHR 0x27] @ p
              @ [CHR 0x27])"

definition readFileSync :: "string \<Rightarrow> string action" where
  "readFileSync p w =
     (case files w p of
        None \<Rightarrow> (Thrown (ENOENT ''open'' p), emit (ReadFile p) w)
      | Some (Entry reading removing) \<Rightarrow>
          (case reading of
             Inl error \<Rightarrow> (Thrown error, emit (ReadFile p) w)
           | Inr c \<Rightarrow> (Returned c, emit (ReadFile p) w)))"

definition rmSync :: "string \<Rightarrow> unit action" where
  "rmSync p w =
     (case files w p of
        None \<Rightarrow> (Thrown (ENOENT ''lstat'' p), emit (RmFile p) w)
      | Some (Entry reading removing) \<Rightarrow>
          (case removing of
             Some error \<Rightarrow> (Thrown error, emit (RmFile p) w)
           | None \<Rightarrow>
               (Returned (), emit (RmFile p) (w\<lparr>files := (files w)(p := None)\<rparr>))))"

definition unlinkSync :: "string \<Rightarrow> unit action" where
  "unlinkSync p w =
     (case files w p of
        None \<Rightarrow> (Thrown (ENOENT ''unlink'' p), emit (Unlink p) w)
      | Some (Entry reading removing) \<Rightarrow>
          (case removing of
             Some error \<Rightarrow> (Thrown error, emit (Unlink p) w)
           | None \<Rightarrow>
               (Returned (), emit (Unlink p) (w\<lparr>files := (files w)(p := None)\<rparr>))))"

text \<open>The host says whether a write fails; a write that succeeds leaves a file.\<close>

definition writeFileSync :: "host \<Rightarrow> string \<Rightarrow> string \<Rightarrow> unit action" where
  "writeFileSync H p c w =
     (case fs_step H (WriteFile p c) (files w) of
        Inl t \<Rightarrow> (Thrown t, emit (WriteFile p c) w)
      | Inr fs' \<Rightarrow>
          (Returned (), emit (WriteFile p c) (w\<lparr>files := (files w)(p \<mapsto> File c)\<rparr>)))"

definition host_step :: "host \<Rightarrow> effect \<Rightarrow> unit action" where
  "host_step H e w =
     (case fs_step H e (files w) of
        Inl t \<Rightarrow> (Thrown t, emit e w)
      | Inr fs' \<Rightarrow> (Returned (), emit e (w\<lparr>files := fs'\<rparr>)))"

section \<open>Document sniffer\<close>

datatype MetaschemaDocumentType = Metaschema | MetaConstraints

datatype FileFormat = XML | JSON | YAML

text \<open>\<^verbatim>\<open>getDocumentType\<close>; the root name is \<open>None\<close> when the source's is \<^verbatim>\<open>undefined\<close>.\<close>

definition getDocumentType :: "string option \<Rightarrow> MetaschemaDocumentType" where
  "getDocumentType rootElement =
     (if rootElement = Some ''metaschema-meta-constraints'' then MetaConstraints
      else if rootElement = Some ''METASCHEMA'' then Metaschema
      else Metaschema)"

definition parseJsonDocument ::
  "host \<Rightarrow> string \<Rightarrow> thrown + MetaschemaDocumentType \<times> FileFormat" where
  "parseJsonDocument H fileContent =
     (case bind_sum (JSON_parse H fileContent) (\<lambda>jsonData.
             bind_sum (Object_keys jsonData) (\<lambda>keys.
               Inr (getDocumentType (first_key keys), JSON))) of
        Inl error \<Rightarrow> Inl (Error (''Failed to parse JSON: '' @ thrown_toString error))
      | Inr r \<Rightarrow> Inr r)"

definition parseXmlDocument ::
  "host \<Rightarrow> string \<Rightarrow> thrown + MetaschemaDocumentType \<times> FileFormat" where
  "parseXmlDocument H fileContent =
     (case bind_sum (xml2js_parse H fileContent) (\<lambda>result.
             bind_sum (Object_keys result) (\<lambda>keys.
               Inr (getDocumentType (first_key keys), XML))) of
        Inl error \<Rightarrow> Inl (Error (''Failed to parse XML: '' @ thrown_toString error))
      | Inr r \<Rightarrow> Inr r)"

text \<open>
  \<^verbatim>\<open>parseYamlDocument\<close> settles a promise by hand: \<^verbatim>\<open>reject\<close> does not leave the
  function, and of several \<^verbatim>\<open>resolve\<close>/\<^verbatim>\<open>reject\<close> calls the first one counts.
  \<open>settle p r\<close> is such a call on a promise \<open>p\<close> (\<open>None\<close> while it is not settled).
\<close>

definition settle :: "'a option \<Rightarrow> 'a \<Rightarrow> 'a option" where
  "settle p r = (case p of None \<Rightarrow> Some r | Some r0 \<Rightarrow> Some r0)"

definition parseYamlDocument ::
  "host \<Rightarrow> string \<Rightarrow> (thrown + MetaschemaDocumentType \<times> FileFormat) option" where
  "parseYamlDocument H fileContent =
     (case yaml_load H fileContent of
        Inl error \<Rightarrow> settle None (Inl (Error (''Failed to parse YAML: '' @ thrown_toString error)))
      | Inr yamlData \<Rightarrow>
          (let p = (if \<not> typeof_object yamlData \<or> yamlData = JNull
                    then settle None (Inl (Error ''Invalid YAML structure''))
                    else None)
           in case Object_keys yamlData of
                Inl error \<Rightarrow>
                  settle p (Inl (Error (''Failed to parse YAML: '' @ thrown_toString error)))
              | Inr keys \<Rightarrow> settle p (Inr (getDocumentType (first_key keys), YAML))))"

definition await :: "(thrown + 'a) option \<Rightarrow> 'a action" where
  "await p w =
     (case p of
        None \<Rightarrow> (Pending, w)
      | Some (Inl t) \<Rightarrow> (Thrown t, w)
      | Some (Inr x) \<Rightarrow> (Returned x, w))"

definition detectMetaschemaDocumentType ::
  "host \<Rightarrow> string \<Rightarrow> (MetaschemaDocumentType \<times> FileFormat) action" where
  "detectMetaschemaDocumentType H filePath =
     (let fileExtension = toLowerCase (extname (platform H) filePath)
      in if fileExtension \<notin> set [''.xml'', ''.json'', ''.yaml'', ''.yml'']
         then throw (Error ''Unsupported file format. Only XML YAML and JSON are supported.'')
         else seq (readFileSync filePath) (\<lambda>fileContent.
                if fileExtension = ''.xml'' then lift (parseXmlDocument H fileContent)
                else if fileExtension = ''.json'' then lift (parseJsonDocument H fileContent)
                else await (parseYamlDocument H fileContent)))"

section \<open>Installation check\<close>

definition checkCommand :: "host \<Rightarrow> string \<Rightarrow> bool action" where
  "checkCommand H command w =
     (case exec H command of
        Inl error \<Rightarrow> (Returned False, emit (Exec command) w)
      | Inr out \<Rightarrow> (Returned True, emit (Exec command) w))"

definition isMetaschemaCliInstalled :: "host \<Rightarrow> bool action" where
  "isMetaschemaCliInstalled H =
     (let command = (if platform H = Win32 then ''where metaschema-cli''
                     else ''which metaschema-cli'')
      in seq (checkCommand H command) (\<lambda>isInPath.
           if isInPath then ret True
           else (let metaschemaCliInstallPath = path_join H [''.'', ''metaschema-cli'']
                 in (\<lambda>w. (Returned (existsSync metaschemaCliInstallPath w), w)))))"

section \<open>Installer\<close>

definition MAVEN_METADATA_URL :: string where
  "MAVEN_METADATA_URL =
     ''https://repo1.maven.org/maven2/dev/metaschema/java/metaschema-cli/maven-metadata.xml''"

definition MAVEN_DOWNLOAD_URL :: "string \<Rightarrow> string" where
  "MAVEN_DOWNLOAD_URL version =
     ''https://repo1.maven.org/maven2/dev/metaschema/java/metaschema-cli/'' @ version
       @ ''/metaschema-cli-'' @ version @ ''-metaschema-cli.zip''"

definition do_fetch :: "host \<Rightarrow> string \<Rightarrow> response action" where
  "do_fetch H url w =
     (case fetch H url of
        Inl t \<Rightarrow> (Thrown t, emit (Fetch url) w)
      | Inr r \<Rightarrow> (Returned r, emit (Fetch url) w))"

text \<open>\<^verbatim>\<open>v.sort()\<close>: only an array has the method.\<close>

fun array_sort :: "jsval \<Rightarrow> thrown + jsval list" where
  "array_sort (JArr xs) = Inr (js_sort xs)"
| "array_sort JUndefined = bind_sum (get_prop JUndefined ''sort'') (\<lambda>m. Inr [])"
| "array_sort JNull = bind_sum (get_prop JNull ''sort'') (\<lambda>m. Inr [])"
| "array_sort v = Inl (TypeError ''sort is not a function'')"

text \<open>\<^verbatim>\<open>result.metadata.versioning[0]\<close>\<close>

definition versioning0 :: "jsval \<Rightarrow> thrown + jsval" where
  "versioning0 result =
     bind_sum (get_prop result ''metadata'') (\<lambda>metadata.
     bind_sum (get_prop metadata ''versioning'') (\<lambda>versioning.
     get_index versioning 0))"

definition getVersionsFromMaven :: "host \<Rightarrow> (jsval list \<times> jsval) action" where
  "getVersionsFromMaven H =
     catch
       (seq (do_fetch H MAVEN_METADATA_URL) (\<lambda>response.
          if \<not> ok response
          then throw (Error (''HTTP error! status: '' @ show_int (status response)))
          else (let xmlData = body response
                in lift
                     (bind_sum (xml2js_parse H xmlData) (\<lambda>result.
                      bind_sum (versioning0 result) (\<lambda>v0.
                      bind_sum (get_prop v0 ''versions'') (\<lambda>vs.
                      bind_sum (get_index vs 0) (\<lambda>vs0.
                      bind_sum (get_prop vs0 ''version'') (\<lambda>version.
                      bind_sum (array_sort version) (\<lambda>versions.
                      bind_sum (versioning0 result) (\<lambda>v0'.
                      bind_sum (get_prop v0' ''release'') (\<lambda>release.
                      bind_sum (get_index release 0) (\<lambda>latestVersion.
                      Inr (versions, latestVersion))))))))))))))
       (\<lambda>error.
          seq (say (ConsoleError [S ''Error fetching versions from Maven:'', E error])) (\<lambda>_.
          throw error))"

text \<open>\<^verbatim>\<open>downloadFromMaven\<close>; the log line after its \<^verbatim>\<open>return\<close> is never reached.\<close>

definition downloadFromMaven :: "host \<Rightarrow> jsval \<Rightarrow> string action" where
  "downloadFromMaven H version =
     (let v = js_toString version
      in catch
           (seq (say (ConsoleLog
                   [S (''Downloading version '' @ v @ '' from '' @ MAVEN_DOWNLOAD_URL v)])) (\<lambda>_.
            seq (do_fetch H (MAVEN_DOWNLOAD_URL v)) (\<lambda>response.
            if \<not> ok response
            then throw (Error (''HTTP error! status: '' @ show_int (status response)))
            else ret (body response))))
           (\<lambda>error.
              seq (say (ConsoleError [S (''Error downloading version '' @ v @ '':''), E error])) (\<lambda>_.
              throw error)))"

definition do_execSync :: "host \<Rightarrow> string \<Rightarrow> string action" where
  "do_execSync H command w =
     (case execSync H command of
        Inl t \<Rightarrow> (Thrown t, emit (ExecSync command) w)
      | Inr out \<Rightarrow> (Returned out, emit (ExecSync command) w))"

text \<open>
  The body of \<^verbatim>\<open>installMetaschemaCli\<close> from \<^verbatim>\<open>console.log("Installing version:", ...)\<close>
  on. Opening the archive and extracting it are one host step.
\<close>

definition install_steps :: "host \<Rightarrow> jsval \<Rightarrow> unit action" where
  "install_steps H version =
     seq (say (ConsoleLog [S ''Installing version:'', S (chalk H Blue (js_toString version))])) (\<lambda>_.
     (let isWindows = (platform H = Win32)
      in seq (do_execSync H ''npm config get prefix'') (\<lambda>out.
         (let npmPrefix = trim out;
              binPath = (if isWindows then npmPrefix else path_join H [npmPrefix, ''bin'']);
              metaschemaCliPath =
                path_join H [npmPrefix, ''lib'', ''node_modules'', ''metaschema-cli''];
              metaschemaCliExecutablePath =
                path_join H [metaschemaCliPath, ''bin'', ''metaschema-cli'']
          in seq (host_step H (Mkdir metaschemaCliPath)) (\<lambda>_.
             seq (say (ConsoleLog [S ''Downloading METASCHEMA CLI...''])) (\<lambda>_.
             seq (downloadFromMaven H version) (\<lambda>zipBuffer.
             seq (say (ConsoleLog [S ''Extracting METASCHEMA CLI...''])) (\<lambda>_.
             seq (host_step H (Extract zipBuffer metaschemaCliPath)) (\<lambda>_.
             seq (if \<not> isWindows
                  then seq (say (ConsoleLog
                              [S (''Setting executable permissions for CLI at ''
                                    @ metaschemaCliExecutablePath)])) (\<lambda>_.
                       host_step H (Chmod metaschemaCliExecutablePath ''755''))
                  else ret ()) (\<lambda>_.
             seq (say (ConsoleLog
                     [S (''Creating METASCHEMA CLI symlink: metaschema-cli => ''
                           @ metaschemaCliExecutablePath)])) (\<lambda>_.
             (let sourceFile = (if isWindows then metaschemaCliExecutablePath @ ''.bat''
                                else metaschemaCliExecutablePath);
                  aliasPath = path_join H
                    [binPath, ''metaschema-cli'' @ (if isWindows then ''.bat'' else [])]
              in seq (\<lambda>w. if existsSync aliasPath w then unlinkSync aliasPath w else ret () w) (\<lambda>_.
                 seq (if isWindows
                      then writeFileSync H aliasPath
                             (''@echo off'' @ [newline] @ [CHR 0x22] @ sourceFile
                                @ [CHR 0x22] @ '' %*'')
                      else host_step H (Symlink sourceFile aliasPath)) (\<lambda>_.
                 seq (say (ConsoleLog
                         [S (''METASCHEMA CLI installed to '' @ metaschemaCliPath)])) (\<lambda>_.
                 say (ConsoleLog [S (''Alias created at '' @ aliasPath)]))))))))))))))))"

definition installMetaschemaCli :: "host \<Rightarrow> string \<Rightarrow> unit action" where
  "installMetaschemaCli H version =
     catch
       (seq (getVersionsFromMaven H) (\<lambda>(versions, latestVersion).
          if version = ''latest'' then install_steps H latestVersion
          else if JStr version \<notin> set versions
          then seq (say (ConsoleError [S (''Unknown METASCHEMA version: '' @ version)])) (\<lambda>_.
               seq (say (ConsoleError [S (chalk H Blue (js_join '', '' versions))])) (\<lambda>_.
               ret ()))
          else install_steps H (JStr version)))
       (\<lambda>error. throw (Error (''Failed to install METASCHEMA CLI: '' @ thrown_message error)))"

section \<open>Command runner\<close>

definition do_exec :: "host \<Rightarrow> string \<Rightarrow> (string \<times> string) action" where
  "do_exec H command w =
     (case exec H command of
        Inl t \<Rightarrow> (Thrown t, emit (Exec command) w)
      | Inr r \<Rightarrow> (Returned r, emit (Exec command) w))"

text \<open>\<^verbatim>\<open>findMetaschemaCliPath\<close>; \<open>Some p\<close> is the \<^verbatim>\<open>return\<close> inside the \<^verbatim>\<open>try\<close>.\<close>

definition findMetaschemaCliPath :: "host \<Rightarrow> string action" where
  "findMetaschemaCliPath H =
     (let command = (if platform H = Win32 then ''where metaschema-cli''
                     else ''which metaschema-cli'')
      in seq (catch
                (seq (do_exec H command) (\<lambda>(out, err).
                   (let paths = split_on newline (trim out)
                    in if length paths > 0 then ret (Some (paths ! 0)) else ret None)))
                (\<lambda>error. ret None)) (\<lambda>found.
           case found of
             Some p \<Rightarrow> ret p
           | None \<Rightarrow> throw (Error ''METASCHEMA CLI not found'')))"

text \<open>
  The handlers of \<^verbatim>\<open>executeMetaschemaCliCommand\<close> run on the events of the child in
  order. They share the two buffers and the promise. A data event carries a chunk as
  the child wrote it, and the handler appends \<^verbatim>\<open>data.toString()\<close>, the chunk decoded
  by itself. The frames that the loader's timer draws while the child runs are not in
  the trace; the write that clears them is.
\<close>

record capture =
  stdout :: string
  stderr :: string
  settled :: "(thrown + string \<times> string) option"

definition show_code :: "int option \<Rightarrow> string" where
  "show_code code = (case code of None \<Rightarrow> ''null'' | Some n \<Rightarrow> show_int n)"

fun on_event :: "bool \<Rightarrow> proc_event \<Rightarrow> capture \<times> world \<Rightarrow> capture \<times> world" where
  "on_event loading (Data Stdout d) (c, w) =
     (c\<lparr>stdout := stdout c @ Buffer_toString d\<rparr>, w)"
| "on_event loading (Data Stderr d) (c, w) =
     (c\<lparr>stderr := stderr c @ Buffer_toString d\<rparr>, w)"
| "on_event loading (ErrorEv m) (c, w) =
     (c\<lparr>settled := settle (settled c)
          (Inl (Error (''Failed to start METASCHEMA CLI process: '' @ m)))\<rparr>, w)"
| "on_event loading (Close code) (c, w) =
     (c\<lparr>settled := settle (settled c)
          (if code = Some 0 then Inr (stdout c, stderr c)
           else Inl (Error (''METASCHEMA CLI process exited with code '' @ show_code code
                              @ '':'' @ [newline] @ stderr c)))\<rparr>,
      if loading then emit (StdoutWrite [CHR 0x0D, CHR 0x1B, CHR ''['', CHR ''K'']) w else w)"

definition run_events :: "bool \<Rightarrow> proc_event list \<Rightarrow> capture \<times> world \<Rightarrow> capture \<times> world" where
  "run_events loading events s = foldl (\<lambda>s e. on_event loading e s) s events"

definition executeMetaschemaCliCommand ::
  "host \<Rightarrow> string \<Rightarrow> string list \<Rightarrow> bool \<Rightarrow> (string \<times> string) action" where
  "executeMetaschemaCliCommand H command args showLoader =
     seq (findMetaschemaCliPath H) (\<lambda>metaschemaCliPath.
       (let isWindows = (platform H = Win32);
            fullArgs = command # args
        in seq (say (ConsoleLog
                  [S (chalk H Green ''metaschema-cli '' @ chalk H Blue command @ '' ''
                        @ join '' '' args)])) (\<lambda>_.
           (let spawnArgs = (if isWindows
                             then (''cmd.exe'', ''/c'' # metaschemaCliPath # fullArgs, True)
                             else (metaschemaCliPath, fullArgs, False))
            in (\<lambda>w. case spawnArgs of (file, argv, verbatim) \<Rightarrow>
                  (case spawn H file argv verbatim (files w) of
                     Inl error \<Rightarrow> (Thrown error, emit (Spawn file argv verbatim) w)
                   | Inr (events, fs') \<Rightarrow>
                       (case run_events showLoader events
                               (\<lparr>stdout = [], stderr = [], settled = None\<rparr>,
                                emit (Spawn file argv verbatim) (w\<lparr>files := fs'\<rparr>)) of
                          (c, w') \<Rightarrow> await (settled c) w')))))))"

section \<open>Result-log reader\<close>

definition read_rm_parse :: "host \<Rightarrow> string \<Rightarrow> jsval action" where
  "read_rm_parse H tempFile =
     seq (readFileSync tempFile) (\<lambda>sarifOutput.
     seq (rmSync tempFile) (\<lambda>_.
     lift (JSON_parse H sarifOutput)))"

definition tempFile_of :: "host \<Rightarrow> string" where
  "tempFile_of H = path_join H [''metaschema-cli-sarif-log-'' @ v4 H @ ''.json'']"

definition validateWithSarif :: "host \<Rightarrow> string list \<Rightarrow> jsval action" where
  "validateWithSarif H args =
     (let tempFile = tempFile_of H;
          sarifArgs = args @ [''-o'', tempFile, ''--sarif-include-pass'', ''--show-stack-trace''];
          consoleErr = []
      in (\<lambda>w. case executeMetaschemaCliCommand H ''validate'' sarifArgs False w of
            (Returned (out, err), w1) \<Rightarrow>
              (let consoleErr = err
               in seq (say (ConsoleLog [S out])) (\<lambda>_.
                  seq (say (ConsoleError [S (chalk H Red err)])) (\<lambda>_.
                  catch (read_rm_parse H tempFile)
                    (\<lambda>error. throw (Error (''Failed to read or parse SARIF output: ''
                                              @ thrown_toString error))))) w1)
          | (Thrown error, w1) \<Rightarrow>
              seq (say (ConsoleError [S (chalk H Red (thrown_toString error))])) (\<lambda>_.
                (\<lambda>w2. if \<not> existsSync tempFile w2 then throw (StrVal consoleErr) w2
                       else read_rm_parse H tempFile w2)) w1
          | (Pending, w1) \<Rightarrow> (Pending, w1)))"

section \<open>Sample hosts\<close>

text \<open>
  Concrete hosts and a concrete world, on which the properties below are evaluated. The
  sample \<open>path_join\<close> agrees with \<^verbatim>\<open>path.join\<close> on the segments used here, and the
  sample parsers know a few contents by name.
\<close>

definition demo_join :: "string list \<Rightarrow> string" where
  "demo_join segs = join ''/'' (filter (\<lambda>s. s \<noteq> [] \<and> s \<noteq> ''.'') segs)"

definition demo_parse :: "string \<Rightarrow> thrown + jsval" where
  "demo_parse s =
     (if s = ''constraints'' then Inr (JObj [(''metaschema-meta-constraints'', JObj [])])
      else if s = ''module'' then Inr (JObj [(''METASCHEMA'', JObj [])])
      else if s = ''5'' then Inr (JNum 5)
      else if s = ''null'' then Inr JNull
      else Inl (ErrorObj ''SyntaxError'' ''Unexpected token''))"

definition demo_host :: host where
  "demo_host =
     \<lparr>platform = Posix,
      exec = (\<lambda>c. Inl (Error ''Command failed'')),
      execSync = (\<lambda>c. Inr ''/usr/local''),
      spawn = (\<lambda>file argv verbatim fs. Inr ([Close (Some 0)], fs)),
      fetch = (\<lambda>url. Inl (TypeError ''fetch failed'')),
      JSON_parse = demo_parse,
      yaml_load = demo_parse,
      xml2js_parse = demo_parse,
      chalk = (\<lambda>c s. s),
      v4 = ''1b9d6bcd'',
      path_join = demo_join,
      fs_step = (\<lambda>e fs. Inr fs)\<rparr>"

definition demo_world :: world where
  "demo_world =
     \<lparr>files = [''metaschema-cli'' \<mapsto> File [], ''doc.XML'' \<mapsto> File ''constraints'',
               ''c.yml'' \<mapsto> File ''constraints'', ''n.json'' \<mapsto> File ''5'',
               ''null.json'' \<mapsto> File ''null'', ''s.yaml'' \<mapsto> File ''5''],
      trace = []\<rparr>"

text \<open>A host whose version index lists 0.9.0 before 0.10.0 and names 0.10.0 as release.\<close>

definition maven_index_versions :: "jsval list" where
  "maven_index_versions = [JStr ''0.9.0'', JStr ''0.10.0'']"

definition maven_versioning :: "(string \<times> jsval) list" where
  "maven_versioning =
     [(''latest'', JArr [JStr ''0.10.0'']),
      (''release'', JArr [JStr ''0.10.0'']),
      (''versions'', JArr [JObj [(''version'', JArr maven_index_versions)]])]"

definition maven_metadata :: "(string \<times> jsval) list" where
  "maven_metadata =
     [(''groupId'', JArr [JStr ''dev.metaschema.java'']),
      (''artifactId'', JArr [JStr ''metaschema-cli'']),
      (''versioning'', JArr [JObj maven_versioning])]"

definition maven_response :: response where
  "maven_response = \<lparr>ok = True, status = 200, body = ''metadata''\<rparr>"

definition maven_host :: host where
  "maven_host = demo_host
     \<lparr>fetch := (\<lambda>url. Inr maven_response),
      xml2js_parse := (\<lambda>s. Inr (JObj [(''metadata'', JObj maven_metadata)]))\<rparr>"

text \<open>
  Hosts on which the tool is found: one whose child warns on stderr and exits 0, one
  whose child writes to stderr and exits 1 without a log, one whose child writes the
  five bytes of \<^verbatim>\<open>caf\<close> and e-acute to stderr in two chunks that split the last
  character, and one whose child exits with a given code and leaves a given entry at the
  path of the log. On \<open>blank_host\<close> the search command succeeds and prints nothing; on
  \<open>where_host\<close> the Windows search prints two lines that end in carriage return and line
  feed.
\<close>

definition found_host :: host where
  "found_host = demo_host
     \<lparr>exec := (\<lambda>c. Inr (''/usr/local/bin/metaschema-cli'' @ [newline], []))\<rparr>"

definition blank_host :: host where
  "blank_host = demo_host\<lparr>exec := (\<lambda>c. Inr ([], []))\<rparr>"


definition failing_host :: host where
  "failing_host = found_host
     \<lparr>spawn := (\<lambda>file argv verbatim fs.
         Inr ([Data Stdout ''Validating'', Data Stderr ''bo'', Data Stderr ''om'',
               Close (Some 1)], fs))\<rparr>"

text \<open>The file that the tool is told to write: the argument after \<^verbatim>\<open>-o\<close>.\<close>

definition output_target :: "string list \<Rightarrow> string option" where
  "output_target argv =
     (case dropWhile (\<lambda>a. a \<noteq> ''-o'') argv of
        opt # target # rest \<Rightarrow> Some target
      | _ \<Rightarrow> None)"

definition leaving_host :: "int \<Rightarrow> node \<Rightarrow> host" where
  "leaving_host code entry = found_host
     \<lparr>spawn := (\<lambda>file argv verbatim fs.
         Inr ([Data Stderr ''boom'', Close (Some code)],
              (case output_target argv of
                 None \<Rightarrow> fs
               | Some target \<Rightarrow> fs(target \<mapsto> entry))))\<rparr>"

text \<open>A directory: reading it throws, and so does removing it with \<^verbatim>\<open>rmSync(path)\<close>.\<close>

definition directory :: node where
  "directory =
     Entry (Inl (Error ''EISDIR: illegal operation on a directory, read''))
       (Some (ErrorObj ''SystemError'' ''Path is a directory: rm returned EISDIR''))"



definition where_host :: host where
  "where_host = demo_host
     \<lparr>platform := Win32,
      exec := (\<lambda>c. Inr (''C:/tools/metaschema-cli.bat'' @ [CHR 0x0D, newline]
                          @ ''D:/bin/metaschema-cli.bat'' @ [CHR 0x0D, newline], []))\<rparr>"

section \<open>Notions used in the statements\<close>

definition succeeded :: "thrown + 'a \<Rightarrow> bool" where
  "succeeded r = (case r of Inl t \<Rightarrow> False | Inr x \<Rightarrow> True)"







text \<open>
  What \<^verbatim>\<open>validateWithSarif\<close> can clear away: a path with no entry, and a path whose
  entry can be read and removed.
\<close>

fun can_clear :: "node option \<Rightarrow> bool" where
  "can_clear None = True"
| "can_clear (Some (Entry (Inr c) None)) = True"
| "can_clear (Some (Entry reading removing)) = False"

section \<open>Properties of the installation check\<close>

text \<open>
  Claim C9. \<^verbatim>\<open>isMetaschemaCliInstalled\<close> returns true exactly when the platform's search
  command (\<^verbatim>\<open>where\<close> on Windows, \<^verbatim>\<open>which\<close> elsewhere) succeeds for the tool name, or
  the path \<^verbatim>\<open>path.join('.', 'metaschema-cli')\<close> has an entry in the file system. So a
  miss on the search path alone does not make it false. The call runs the search
  command once and changes nothing else.
\<close>

theorem isMetaschemaCliInstalled_iff:
  "isMetaschemaCliInstalled H w =
     (Returned (succeeded (exec H (if platform H = Win32 then ''where metaschema-cli''
                                   else ''which metaschema-cli''))
                \<or> files w (path_join H [''.'', ''metaschema-cli'']) \<noteq> None),
      emit (Exec (if platform H = Win32 then ''where metaschema-cli''
                  else ''which metaschema-cli'')) w)"
  by (simp add: isMetaschemaCliInstalled_def checkCommand_def seq_def ret_def existsSync_def
      succeeded_def emit_def Let_def split: sum.splits)

text \<open>On the sample host the search fails and the entry exists: the answer is true.\<close>

theorem isMetaschemaCliInstalled_iff_witness:
  "\<not> succeeded (exec demo_host ''which metaschema-cli'')
   \<and> fst (isMetaschemaCliInstalled demo_host demo_world) = Returned True"
  using isMetaschemaCliInstalled_iff [of demo_host demo_world]
  by (simp add: demo_host_def demo_world_def demo_join_def succeeded_def)

section \<open>Properties of the document sniffer\<close>

lemma ext_txt: "toLowerCase (extname Posix ''notes.txt'') = ''.txt''"
  by (simp add: extname_def is_sep_def Let_def lower_char_def)

lemma ext_XML: "extname Posix ''doc.XML'' = ''.XML''"
  by (simp add: extname_def is_sep_def Let_def)

text \<open>
  Claim C5, as stated: a path whose extension is not one of \<^verbatim>\<open>.xml\<close>, \<^verbatim>\<open>.json\<close>,
  \<^verbatim>\<open>.yaml\<close>, \<^verbatim>\<open>.yml\<close> fails with the unsupported-format error and is never read.
  The source lower-cases the extension before the test, so \<^verbatim>\<open>doc.XML\<close>, whose
  extension \<^verbatim>\<open>.XML\<close> is none of the four, is read and classified.
\<close>

theorem uppercase_extension_counterexample:
  "extname (platform demo_host) ''doc.XML'' \<notin> set [''.xml'', ''.json'', ''.yaml'', ''.yml'']
   \<and> detectMetaschemaDocumentType demo_host ''doc.XML'' demo_world =
       (Returned (MetaConstraints, XML), emit (ReadFile ''doc.XML'') demo_world)"
  by (simp add: demo_host_def ext_XML detectMetaschemaDocumentType_def Let_def lower_char_def seq_def readFileSync_def demo_world_def lift_def parseXmlDocument_def
      bind_sum_def demo_parse_def getDocumentType_def)

text \<open>
  Claim C5, amended: a path whose extension, lower-cased, is not one of \<^verbatim>\<open>.xml\<close>,
  \<^verbatim>\<open>.json\<close>, \<^verbatim>\<open>.yaml\<close>, \<^verbatim>\<open>.yml\<close> fails with the unsupported-format error, and the
  world is left as it was: no file is read.
\<close>

theorem detect_unsupported_extension:
  assumes "toLowerCase (extname (platform H) filePath)
             \<notin> set [''.xml'', ''.json'', ''.yaml'', ''.yml'']"
  shows "detectMetaschemaDocumentType H filePath w =
           (Thrown (Error ''Unsupported file format. Only XML YAML and JSON are supported.''), w)"
  using assms by (simp add: detectMetaschemaDocumentType_def Let_def throw_def)

theorem detect_unsupported_extension_witness:
  "toLowerCase (extname (platform demo_host) ''notes.txt'')
      \<notin> set [''.xml'', ''.json'', ''.yaml'', ''.yml'']
   \<and> detectMetaschemaDocumentType demo_host ''notes.txt'' demo_world =
       (Thrown (Error ''Unsupported file format. Only XML YAML and JSON are supported.''),
        demo_world)"
proof -
  have h: "toLowerCase (extname (platform demo_host) ''notes.txt'')
      \<notin> set [''.xml'', ''.json'', ''.yaml'', ''.yml'']"
    by (simp add: demo_host_def ext_txt)
  from detect_unsupported_extension [OF h] h show ?thesis by blast
qed










section \<open>Properties of the installer\<close>

lemma maven_run:
  "getVersionsFromMaven maven_host demo_world =
     (Returned ([JStr ''0.10.0'', JStr ''0.9.0''], JStr ''0.10.0''),
      emit (Fetch MAVEN_METADATA_URL) demo_world)"
  by (simp add: getVersionsFromMaven_def catch_def seq_def do_fetch_def maven_host_def
      demo_host_def lift_def bind_sum_def versioning0_def maven_metadata_def maven_versioning_def
      maven_index_versions_def maven_response_def js_sort_def js_sort_key_def Let_def)

text \<open>
  Claim C3, as stated: the version list comes back in the order of the remote index.
  The source sorts the list (\<^verbatim>\<open>.sort()\<close>, as strings) before it returns it: an index that
  lists 0.9.0 and then 0.10.0 comes back as 0.10.0, 0.9.0.
\<close>

theorem index_order_counterexample:
  "fst (getVersionsFromMaven maven_host demo_world) =
     Returned ([JStr ''0.10.0'', JStr ''0.9.0''], JStr ''0.10.0'')
   \<and> [JStr ''0.10.0'', JStr ''0.9.0''] \<noteq> maven_index_versions"
  by (simp add: maven_run maven_index_versions_def)

text \<open>
  Claim C3, amended. When the index is fetched with an ok status and parses to a
  document with \<^verbatim>\<open>metadata.versioning[0].versions[0].version\<close> an array and
  \<^verbatim>\<open>metadata.versioning[0].release\<close> a non-empty array, \<^verbatim>\<open>getVersionsFromMaven\<close>
  returns the full version list re-sorted in ascending order of the versions' strings,
  code unit by code unit (a permutation of the index's list, not its order), together
  with the first release entry, which is what "latest" resolves to. The only effect is
  the fetch.
\<close>

theorem getVersionsFromMaven_sorted:
  assumes "fetch H MAVEN_METADATA_URL = Inr response"
    and "ok response"
    and "xml2js_parse H (body response) = Inr (JObj doc)"
    and "map_of doc ''metadata'' = Some (JObj md)"
    and "map_of md ''versioning'' = Some (JArr (JObj vg # vgs))"
    and "map_of vg ''versions'' = Some (JArr (JObj vsn # vsns))"
    and "map_of vsn ''version'' = Some (JArr index_versions)"
    and "map_of vg ''release'' = Some (JArr (release # rs))"
  shows "getVersionsFromMaven H w =
           (Returned (js_sort index_versions, release), emit (Fetch MAVEN_METADATA_URL) w)
         \<and> mset (js_sort index_versions) = mset index_versions
         \<and> sorted (map js_sort_key (js_sort index_versions))"
proof -
  have v0: "versioning0 (JObj doc) = Inr (JObj vg)"
    using assms(4,5) by (simp add: versioning0_def bind_sum_def)
  have "getVersionsFromMaven H w =
           (Returned (js_sort index_versions, release), emit (Fetch MAVEN_METADATA_URL) w)"
    using assms v0
    by (simp add: getVersionsFromMaven_def catch_def seq_def do_fetch_def lift_def bind_sum_def
        Let_def)
  moreover have "mset (js_sort index_versions) = mset index_versions"
    by (simp add: js_sort_def)
  moreover have "sorted (map js_sort_key (js_sort index_versions))"
    by (simp add: js_sort_def)
  ultimately show ?thesis by simp
qed

theorem getVersionsFromMaven_sorted_witness:
  "getVersionsFromMaven maven_host demo_world =
     (Returned ([JStr ''0.10.0'', JStr ''0.9.0''], JStr ''0.10.0''),
      emit (Fetch MAVEN_METADATA_URL) demo_world)"
proof -
  have a: "fetch maven_host MAVEN_METADATA_URL = Inr maven_response"
    by (simp add: maven_host_def)
  have b: "ok maven_response"
    by (simp add: maven_response_def)
  have c: "xml2js_parse maven_host (body maven_response) =
      Inr (JObj [(''metadata'', JObj maven_metadata)])"
    by (simp add: maven_host_def)
  have d: "map_of [(''metadata'', JObj maven_metadata)] ''metadata'' = Some (JObj maven_metadata)"
    by simp
  have e: "map_of maven_metadata ''versioning'' = Some (JArr (JObj maven_versioning # []))"
    by (simp add: maven_metadata_def)
  have f: "map_of maven_versioning ''versions'' =
      Some (JArr (JObj [(''version'', JArr maven_index_versions)] # []))"
    by (simp add: maven_versioning_def)
  have g: "map_of [(''version'', JArr maven_index_versions)] ''version'' =
      Some (JArr maven_index_versions)"
    by simp
  have h: "map_of maven_versioning ''release'' = Some (JArr (JStr ''0.10.0'' # []))"
    by (simp add: maven_versioning_def)
  have s: "js_sort maven_index_versions = [JStr ''0.10.0'', JStr ''0.9.0'']"
    by (simp add: maven_index_versions_def js_sort_def js_sort_key_def)
  from getVersionsFromMaven_sorted [OF a b c d e f g h, of demo_world]
  show ?thesis by (simp add: s)
qed

lemma getVersionsFromMaven_Returned_world:
  assumes "getVersionsFromMaven H w = (Returned r, w1)"
  shows "w1 = emit (Fetch MAVEN_METADATA_URL) w"
  using assms
  by (auto simp add: getVersionsFromMaven_def catch_def seq_def do_fetch_def lift_def
      throw_def say_def Let_def split: sum.splits if_splits)

text \<open>
  Claim C6. Let the version list be fetched, and let the requested version be an
  explicit one (not \<^verbatim>\<open>latest\<close>) that is absent from the list. Then
  \<^verbatim>\<open>installMetaschemaCli\<close> returns without throwing; it has written two lines to the
  error console, the unknown version and the list of valid versions; and the world it
  leaves differs from the one it found by the fetch of the index and these two lines
  only: no directory is made, nothing is downloaded or extracted, no mode is changed
  and no alias is removed or written.
\<close>

theorem install_unknown_version:
  assumes "fst (getVersionsFromMaven H w) = Returned (versions, latestVersion)"
    and "version \<noteq> ''latest''"
    and "JStr version \<notin> set versions"
  shows "installMetaschemaCli H version w =
           (Returned (),
            emit (ConsoleError [S (chalk H Blue (js_join '', '' versions))])
              (emit (ConsoleError [S (''Unknown METASCHEMA version: '' @ version)])
                 (emit (Fetch MAVEN_METADATA_URL) w)))"
proof -
  obtain w1 where g: "getVersionsFromMaven H w = (Returned (versions, latestVersion), w1)"
    using assms(1) by (cases "getVersionsFromMaven H w") auto
  then have w1: "w1 = emit (Fetch MAVEN_METADATA_URL) w"
    by (rule getVersionsFromMaven_Returned_world)
  show ?thesis
    using g assms(2,3) w1
    by (simp add: installMetaschemaCli_def catch_def seq_def say_def ret_def)
qed

theorem install_unknown_version_witness:
  "installMetaschemaCli maven_host ''9.9.9'' demo_world =
     (Returned (),
      emit (ConsoleError [S ''0.10.0, 0.9.0''])
        (emit (ConsoleError [S ''Unknown METASCHEMA version: 9.9.9''])
           (emit (Fetch MAVEN_METADATA_URL) demo_world)))"
proof -
  have a: "fst (getVersionsFromMaven maven_host demo_world) =
     Returned ([JStr ''0.10.0'', JStr ''0.9.0''], JStr ''0.10.0'')"
    by (simp add: maven_run)
  have b: "''9.9.9'' \<noteq> ''latest''" by simp
  have c: "JStr ''9.9.9'' \<notin> set [JStr ''0.10.0'', JStr ''0.9.0'']" by simp
  from install_unknown_version [OF a b c] show ?thesis
    by (simp add: maven_host_def demo_host_def js_join_def)
qed

section \<open>Properties of the command runner\<close>

lemma split_on_nonempty: "split_on c s \<noteq> []"
  by (induction s) (auto split: list.splits)

lemma findMetaschemaCliPath_eq:
  "findMetaschemaCliPath H w =
     ((case exec H (if platform H = Win32 then ''where metaschema-cli''
                    else ''which metaschema-cli'') of
         Inl error \<Rightarrow> Thrown (Error ''METASCHEMA CLI not found'')
       | Inr (out, err) \<Rightarrow> Returned (hd (split_on newline (trim out)))),
      emit (Exec (if platform H = Win32 then ''where metaschema-cli''
                  else ''which metaschema-cli'')) w)"
  using split_on_nonempty [of newline]
  by (auto simp add: findMetaschemaCliPath_def Let_def seq_def catch_def do_exec_def ret_def
      throw_def hd_conv_nth split: sum.splits)






lemma utf8_ascii: "list_all (\<lambda>c. byte c < 0x80) d \<Longrightarrow> utf8 d"
  by (induction d) simp_all


lemma found_path:
  "findMetaschemaCliPath (found_host\<lparr>spawn := sp\<rparr>) w =
     (Returned ''/usr/local/bin/metaschema-cli'', emit (Exec ''which metaschema-cli'') w)"
  by (simp add: findMetaschemaCliPath_eq found_host_def demo_host_def trim_def white_space_def
      newline_def)

lemma show_code_1: "show_code (Some 1) = ''1''"
  by (simp add: show_code_def show_int_def show_nat.simps digit_def)






text \<open>
  Claim C8. \<^verbatim>\<open>findMetaschemaCliPath\<close> is to fail with the not-found error when the
  search produces no result. Its guard \<^verbatim>\<open>paths.length > 0\<close> is always true, since
  \<^verbatim>\<open>split\<close> returns at least one piece: when the search command succeeds and prints
  nothing, the call returns the empty string as the path.
\<close>

theorem blank_search_output_returns_empty_path:
  "exec blank_host ''which metaschema-cli'' = Inr ([], [])
   \<and> fst (findMetaschemaCliPath blank_host demo_world) = Returned []"
  by (simp add: findMetaschemaCliPath_eq blank_host_def demo_host_def trim_def)

text \<open>On Windows the first line of the output of \<^verbatim>\<open>where\<close> keeps its carriage return.\<close>

lemma where_output_keeps_carriage_return:
  "fst (findMetaschemaCliPath where_host demo_world) =
     Returned (''C:/tools/metaschema-cli.bat'' @ [CHR 0x0D])"
  by (simp add: findMetaschemaCliPath_eq where_host_def demo_host_def trim_def white_space_def
      newline_def)


section \<open>Properties of the result-log reader\<close>

lemma validateWithSarif_failed_run_no_log:
  assumes "executeMetaschemaCliCommand H ''validate''
             (args @ [''-o'', tempFile_of H, ''--sarif-include-pass'', ''--show-stack-trace''])
             False w = (Thrown error, w1)"
    and "files w1 (tempFile_of H) = None"
  shows "validateWithSarif H args w =
           (Thrown (StrVal []), emit (ConsoleError [S (chalk H Red (thrown_toString error))]) w1)"
  using assms
  by (simp add: validateWithSarif_def Let_def seq_def say_def existsSync_def throw_def emit_def)

lemma tempFile_failing: "tempFile_of failing_host = ''metaschema-cli-sarif-log-1b9d6bcd.json''"
  by (simp add: tempFile_of_def failing_host_def found_host_def demo_host_def demo_join_def)

lemma failing_run:
  "executeMetaschemaCliCommand failing_host ''validate'' args False demo_world =
     (Thrown (Error (''METASCHEMA CLI process exited with code 1:'' @ [newline] @ ''boom'')),
      emit (Spawn ''/usr/local/bin/metaschema-cli'' (''validate'' # args) False)
        (emit (ConsoleLog [S (''metaschema-cli validate '' @ join '' '' args)])
           (emit (Exec ''which metaschema-cli'') demo_world)))"
proof -
  have f: "findMetaschemaCliPath failing_host demo_world =
     (Returned ''/usr/local/bin/metaschema-cli'', emit (Exec ''which metaschema-cli'') demo_world)"
    by (simp add: failing_host_def found_path)
  have p: "platform failing_host = Posix" "chalk failing_host = (\<lambda>c s. s)"
    "spawn failing_host = (\<lambda>file argv verbatim fs.
         Inr ([Data Stdout ''Validating'', Data Stderr ''bo'', Data Stderr ''om'',
               Close (Some 1)], fs))"
    by (simp_all add: failing_host_def found_host_def demo_host_def)
  show ?thesis
    by (simp add: executeMetaschemaCliCommand_def seq_def f p say_def Let_def
        run_events_def settle_def await_def show_code_1 emit_def byte_def)
qed

text \<open>
  Claim C1. After a run that fails with no log file, \<^verbatim>\<open>validateWithSarif\<close> is to fail
  with the stderr captured from that run. The variable \<^verbatim>\<open>consoleErr\<close> that it throws is
  assigned only after a successful run, so what is thrown is the empty string: here the
  child writes \<^verbatim>\<open>boom\<close> to stderr and exits 1, the runner's error carries \<^verbatim>\<open>boom\<close>,
  and the value thrown by \<^verbatim>\<open>validateWithSarif\<close> is empty.
\<close>

theorem failed_run_without_log_throws_empty_string:
  "fst (executeMetaschemaCliCommand failing_host ''validate''
          ([''doc.xml''] @ [''-o'', tempFile_of failing_host, ''--sarif-include-pass'',
                             ''--show-stack-trace'']) False demo_world) =
     Thrown (Error (''METASCHEMA CLI process exited with code 1:'' @ [newline] @ ''boom''))
   \<and> fst (validateWithSarif failing_host [''doc.xml''] demo_world) = Thrown (StrVal [])"
proof -
  let ?args = "[''doc.xml''] @ [''-o'', tempFile_of failing_host, ''--sarif-include-pass'',
                             ''--show-stack-trace'']"
  have nolog: "files (emit (Spawn ''/usr/local/bin/metaschema-cli'' (''validate'' # ?args) False)
        (emit (ConsoleLog [S (''metaschema-cli validate '' @ join '' '' ?args)])
           (emit (Exec ''which metaschema-cli'') demo_world))) (tempFile_of failing_host) = None"
    by (simp add: emit_def demo_world_def tempFile_failing)
  from validateWithSarif_failed_run_no_log [OF failing_run nolog] failing_run [of ?args]
  show ?thesis by simp
qed

lemma read_rm_parse_clears:
  assumes "read_rm_parse H p w = (r, w')"
  shows "(files w' p = None) = can_clear (files w p)"
proof (cases "files w p")
  case None
  with assms show ?thesis
    by (auto simp add: read_rm_parse_def seq_def readFileSync_def emit_def)
next
  case (Some n)
  obtain reading removing where n: "n = Entry reading removing" by (cases n)
  show ?thesis
  proof (cases reading)
    case (Inl error)
    with assms Some n show ?thesis
      by (auto simp add: read_rm_parse_def seq_def readFileSync_def emit_def)
  next
    case (Inr c)
    show ?thesis
    proof (cases removing)
      case None
      with assms Some n Inr show ?thesis
        by (auto simp add: read_rm_parse_def seq_def readFileSync_def rmSync_def lift_def
            emit_def split: sum.splits)
    next
      case (Some error)
      with assms \<open>files w p = Some n\<close> n Inr show ?thesis
        by (auto simp add: read_rm_parse_def seq_def readFileSync_def rmSync_def emit_def)
    qed
  qed
qed

lemma tempFile_leaving:
  "tempFile_of (leaving_host code entry) = ''metaschema-cli-sarif-log-1b9d6bcd.json''"
  by (simp add: tempFile_of_def leaving_host_def found_host_def demo_host_def demo_join_def)

lemma leaving_run:
  "executeMetaschemaCliCommand (leaving_host code entry) ''validate''
       [''doc.xml'', ''-o'', ''metaschema-cli-sarif-log-1b9d6bcd.json'',
        ''--sarif-include-pass'', ''--show-stack-trace''] False demo_world =
     ((if code = 0 then Returned ([], ''boom'')
       else Thrown (Error (''METASCHEMA CLI process exited with code '' @ show_int code
                             @ '':'' @ [newline] @ ''boom''))),
      emit (Spawn ''/usr/local/bin/metaschema-cli''
              [''validate'', ''doc.xml'', ''-o'', ''metaschema-cli-sarif-log-1b9d6bcd.json'',
               ''--sarif-include-pass'', ''--show-stack-trace''] False)
        (emit (ConsoleLog [S (''metaschema-cli validate doc.xml -o ''
                 @ ''metaschema-cli-sarif-log-1b9d6bcd.json --sarif-include-pass ''
                 @ ''--show-stack-trace'')])
           (emit (Exec ''which metaschema-cli'') demo_world))
        \<lparr>files := (files demo_world)(''metaschema-cli-sarif-log-1b9d6bcd.json'' \<mapsto> entry)\<rparr>)"
proof -
  have f: "findMetaschemaCliPath (leaving_host code entry) demo_world =
     (Returned ''/usr/local/bin/metaschema-cli'', emit (Exec ''which metaschema-cli'') demo_world)"
    by (simp add: leaving_host_def found_path)
  have p: "platform (leaving_host code entry) = Posix"
    "chalk (leaving_host code entry) = (\<lambda>c s. s)"
    "spawn (leaving_host code entry) = (\<lambda>file argv verbatim fs.
         Inr ([Data Stderr ''boom'', Close (Some code)],
              (case output_target argv of
                 None \<Rightarrow> fs
               | Some target \<Rightarrow> fs(target \<mapsto> entry))))"
    by (simp_all add: leaving_host_def found_host_def demo_host_def)
  show ?thesis
    by (simp add: executeMetaschemaCliCommand_def seq_def f p say_def Let_def output_target_def
        run_events_def settle_def await_def show_code_def emit_def byte_def)
qed

lemma log_validate:
  "fst (validateWithSarif (leaving_host code (File content)) [''doc.xml''] demo_world) =
     (case demo_parse content of
        Inr v \<Rightarrow> Returned v
      | Inl e \<Rightarrow> (if code = 0
                  then Thrown (Error (''Failed to read or parse SARIF output: ''
                                        @ thrown_toString e))
                  else Thrown e))"
proof -
  have j: "\<And>c. JSON_parse (leaving_host c (File content)) = demo_parse"
    by (simp add: leaving_host_def found_host_def demo_host_def)
  show ?thesis
    by (simp add: validateWithSarif_def Let_def leaving_run tempFile_leaving seq_def say_def
        catch_def read_rm_parse_def readFileSync_def rmSync_def emit_def existsSync_def lift_def
        j throw_def split: sum.splits)
qed

lemma leaving_entry:
  "files (snd (executeMetaschemaCliCommand (leaving_host code entry) ''validate''
        [''doc.xml'', ''-o'', tempFile_of (leaving_host code entry), ''--sarif-include-pass'',
         ''--show-stack-trace''] False demo_world))
     (tempFile_of (leaving_host code entry)) = Some entry"
  by (simp add: tempFile_leaving leaving_run emit_def)

text \<open>
  Claim C2, as stated: after every call of \<^verbatim>\<open>validateWithSarif\<close> that returns, on every
  path, the temporary log has no entry in the file system. The source removes the entry
  only after it has read it, and does nothing after a read or a removal that throws.
  Here the run succeeds and leaves a directory at the path of the log: reading it throws,
  the call fails with the wrapped error, and the entry is still there. An entry that is
  a file and cannot be read or removed (permission denied, busy) stays in the same way.
\<close>

theorem unreadable_log_counterexample:
  "fst (validateWithSarif (leaving_host 0 directory) [''doc.xml''] demo_world) =
     Thrown (Error (''Failed to read or parse SARIF output: ''
                      @ ''Error: EISDIR: illegal operation on a directory, read''))
   \<and> files (snd (validateWithSarif (leaving_host 0 directory) [''doc.xml''] demo_world))
        (tempFile_of (leaving_host 0 directory)) = Some directory"
  by (simp add: validateWithSarif_def Let_def leaving_run tempFile_leaving seq_def say_def
      catch_def read_rm_parse_def readFileSync_def emit_def directory_def throw_def Error_def)

text \<open>
  Whether the entry is there after a call that settles is decided by what the run of the
  tool left at the path.
\<close>

lemma validateWithSarif_temp_file_iff:
  assumes run: "validateWithSarif H args w = (r, w')"
    and returned: "r \<noteq> Pending"
  shows "(files w' (tempFile_of H) = None) =
           can_clear (files (snd (executeMetaschemaCliCommand H ''validate''
                        (args @ [''-o'', tempFile_of H, ''--sarif-include-pass'',
                                 ''--show-stack-trace'']) False w))
                      (tempFile_of H))"
proof -
  let ?t = "tempFile_of H"
  obtain r1 w1 where ex: "executeMetaschemaCliCommand H ''validate''
      (args @ [''-o'', ?t, ''--sarif-include-pass'', ''--show-stack-trace'']) False w = (r1, w1)"
    by (cases "executeMetaschemaCliCommand H ''validate''
      (args @ [''-o'', ?t, ''--sarif-include-pass'', ''--show-stack-trace'']) False w")
  have goal: "(files w' ?t = None) = can_clear (files w1 ?t)"
  proof (cases r1)
    case (Returned oe)
    obtain out err where oe: "oe = (out, err)" by (cases oe)
    let ?w2 = "emit (ConsoleError [S (chalk H Red err)]) (emit (ConsoleLog [S out]) w1)"
    obtain r3 w3 where rp: "read_rm_parse H ?t ?w2 = (r3, w3)"
      by (cases "read_rm_parse H ?t ?w2")
    then have "(files w3 ?t = None) = can_clear (files ?w2 ?t)"
      by (rule read_rm_parse_clears)
    moreover from run ex Returned oe rp have "w' = w3"
      by (auto simp add: validateWithSarif_def Let_def seq_def say_def catch_def throw_def
          split: outcome.splits)
    ultimately show ?thesis by (simp add: emit_def)
  next
    case (Thrown error)
    let ?w2 = "emit (ConsoleError [S (chalk H Red (thrown_toString error))]) w1"
    show ?thesis
    proof (cases "existsSync ?t ?w2")
      case False
      with run ex Thrown have "w' = ?w2"
        by (simp add: validateWithSarif_def Let_def seq_def say_def throw_def)
      with False show ?thesis by (simp add: existsSync_def emit_def)
    next
      case True
      with run ex Thrown have "read_rm_parse H ?t ?w2 = (r, w')"
        by (simp add: validateWithSarif_def Let_def seq_def say_def)
      then have "(files w' ?t = None) = can_clear (files ?w2 ?t)"
        by (rule read_rm_parse_clears)
      then show ?thesis by (simp add: emit_def)
    qed
  next
    case Pending
    with run ex returned show ?thesis
      by (simp add: validateWithSarif_def Let_def)
  qed
  with ex show ?thesis by simp
qed

text \<open>
  Claim C2, amended. Let \<^verbatim>\<open>validateWithSarif\<close> return or throw, and let the run of the
  tool have left at the path of the temporary log either no entry or a file that can be
  read and removed. Then the path has no entry in the file system that the call leaves:
  after a successful run, after a failed run that left a log, after a failed run that
  left none, and when the log does not parse (it is removed before it is parsed).
\<close>

theorem validateWithSarif_clears_temp_file:
  assumes run: "validateWithSarif H args w = (r, w')"
    and returned: "r \<noteq> Pending"
    and clear: "can_clear (files (snd (executeMetaschemaCliCommand H ''validate''
                        (args @ [''-o'', tempFile_of H, ''--sarif-include-pass'',
                                 ''--show-stack-trace'']) False w))
                      (tempFile_of H))"
  shows "files w' (tempFile_of H) = None"
  using validateWithSarif_temp_file_iff [OF run returned] clear by simp

text \<open>
  A successful run with a log, a failed run with a log, and a log that does not parse:
  the file is gone after each.
\<close>

theorem validateWithSarif_clears_temp_file_witness:
  "fst (validateWithSarif (leaving_host 0 (File ''5'')) [''doc.xml''] demo_world) =
        Returned (JNum 5)
   \<and> files (snd (validateWithSarif (leaving_host 0 (File ''5'')) [''doc.xml''] demo_world))
        (tempFile_of (leaving_host 0 (File ''5''))) = None
   \<and> fst (validateWithSarif (leaving_host 1 (File ''5'')) [''doc.xml''] demo_world) =
        Returned (JNum 5)
   \<and> files (snd (validateWithSarif (leaving_host 1 (File ''5'')) [''doc.xml''] demo_world))
        (tempFile_of (leaving_host 1 (File ''5''))) = None
   \<and> fst (validateWithSarif (leaving_host 0 (File ''garbage'')) [''doc.xml''] demo_world) =
        Thrown (Error ''Failed to read or parse SARIF output: SyntaxError: Unexpected token'')
   \<and> files (snd (validateWithSarif (leaving_host 0 (File ''garbage'')) [''doc.xml''] demo_world))
        (tempFile_of (leaving_host 0 (File ''garbage''))) = None"
proof -
  have a: "fst (validateWithSarif (leaving_host 0 (File ''5'')) [''doc.xml''] demo_world) =
      Returned (JNum 5)"
    by (simp add: log_validate demo_parse_def)
  have b: "fst (validateWithSarif (leaving_host 1 (File ''5'')) [''doc.xml''] demo_world) =
      Returned (JNum 5)"
    by (simp add: log_validate demo_parse_def)
  have c: "fst (validateWithSarif (leaving_host 0 (File ''garbage'')) [''doc.xml''] demo_world) =
        Thrown (Error ''Failed to read or parse SARIF output: SyntaxError: Unexpected token'')"
    by (simp add: log_validate demo_parse_def Error_def)
  have gone: "\<And>code content.
      fst (validateWithSarif (leaving_host code (File content)) [''doc.xml''] demo_world)
        \<noteq> Pending \<Longrightarrow>
      files (snd (validateWithSarif (leaving_host code (File content)) [''doc.xml''] demo_world))
        (tempFile_of (leaving_host code (File content))) = None"
    using validateWithSarif_clears_temp_file [OF prod.collapse [symmetric]]
    by (simp add: leaving_entry)
  from a b c gone [of 0 "''5''"] gone [of 1 "''5''"] gone [of 0 "''garbage''"]
  show ?thesis by simp
qed


end
